theory Spec2Isabelle
  imports Complex_Main
begin

section \<open>Strings and numbers of the host language\<close>

text \<open>
  Strings are lists of 8-bit code units: the code points up to \<open>0xFF\<close>. White space and
  the case mappings are those of these code points.
\<close>

definition startsWith :: "string \<Rightarrow> string \<Rightarrow> bool" where
  "startsWith str p = (take (length p) str = p)"

definition is_white_space :: "char \<Rightarrow> bool" where
  "is_white_space c =
     (c \<in> set [CHR 0x09, CHR 0x0A, CHR 0x0B, CHR 0x0C, CHR 0x0D, CHR '' '', CHR 0xA0])"

definition trim :: "string \<Rightarrow> string" where
  "trim str = rev (dropWhile is_white_space (rev (dropWhile is_white_space str)))"

text \<open>\<^verbatim>\<open>str.split(/ +/)\<close>: the pieces between maximal runs of spaces.\<close>

function split_spaces :: "string \<Rightarrow> string \<Rightarrow> string list" where
  "split_spaces acc [] = [rev acc]"
| "split_spaces acc (c # cs) =
     (if c = CHR '' '' then rev acc # split_spaces [] (dropWhile (\<lambda>d. d = CHR '' '') cs)
      else split_spaces (c # acc) cs)"
  by pat_completeness auto
termination
  by (relation "measure (\<lambda>(acc, str). length str)")
     (auto simp: le_imp_less_Suc length_dropWhile_le)

definition upper_case_letters :: string where
  "upper_case_letters =
     ''ABCDEFGHIJKLMNOPQRSTUVWXYZ'' @
     [CHR 0xC0, CHR 0xC1, CHR 0xC2, CHR 0xC3, CHR 0xC4, CHR 0xC5, CHR 0xC6,
     CHR 0xC7, CHR 0xC8, CHR 0xC9, CHR 0xCA, CHR 0xCB, CHR 0xCC, CHR 0xCD, CHR 0xCE,
     CHR 0xCF, CHR 0xD0, CHR 0xD1, CHR 0xD2, CHR 0xD3, CHR 0xD4, CHR 0xD5, CHR 0xD6,
     CHR 0xD8, CHR 0xD9, CHR 0xDA, CHR 0xDB, CHR 0xDC, CHR 0xDD, CHR 0xDE]"

definition lower_case_letters :: string where
  "lower_case_letters =
     ''abcdefghijklmnopqrstuvwxyz'' @
     [CHR 0xE0, CHR 0xE1, CHR 0xE2, CHR 0xE3, CHR 0xE4, CHR 0xE5, CHR 0xE6,
     CHR 0xE7, CHR 0xE8, CHR 0xE9, CHR 0xEA, CHR 0xEB, CHR 0xEC, CHR 0xED, CHR 0xEE,
     CHR 0xEF, CHR 0xF0, CHR 0xF1, CHR 0xF2, CHR 0xF3, CHR 0xF4, CHR 0xF5, CHR 0xF6,
     CHR 0xF8, CHR 0xF9, CHR 0xFA, CHR 0xFB, CHR 0xFC, CHR 0xFD, CHR 0xFE]"

definition toLowerCase_char :: "char \<Rightarrow> char" where
  "toLowerCase_char c =
     (case map_of (zip upper_case_letters lower_case_letters) c of
        Some l \<Rightarrow> l
      | None \<Rightarrow> c)"

definition toLowerCase :: "string \<Rightarrow> string" where
  "toLowerCase str = map toLowerCase_char str"

text \<open>
  \<^verbatim>\<open>toUpperCase\<close> turns the sharp s (\<open>0xDF\<close>) into \<open>SS\<close>. The capitals of \<open>0xB5\<close> and
  \<open>0xFF\<close> are code units above \<open>0xFF\<close>: the two letters are outside the strings modelled
  here and are left as they are.
\<close>

definition toUpperCase_char :: "char \<Rightarrow> string" where
  "toUpperCase_char c =
     (if c = CHR 0xDF then ''SS''
      else case map_of (zip lower_case_letters upper_case_letters) c of
             Some u \<Rightarrow> [u]
           | None \<Rightarrow> [c])"

definition toUpperCase :: "string \<Rightarrow> string" where
  "toUpperCase str = concat (map toUpperCase_char str)"

text \<open>\<^verbatim>\<open>array.join(", ")\<close>\<close>

fun join_comma :: "string list \<Rightarrow> string" where
  "join_comma [] = []"
| "join_comma [x] = x"
| "join_comma (x # y # ys) = x @ '', '' @ join_comma (y # ys)"

text \<open>Decimal digits of an integer that is not negative, and of any integer.\<close>

function digits :: "int \<Rightarrow> string" where
  "digits i =
     (if i < 10 then [''0123456789'' ! nat i]
      else digits (i div 10) @ [''0123456789'' ! nat (i mod 10)])"
  by pat_completeness auto
termination
  by (relation "measure nat") auto

declare digits.simps [simp del]

definition show_int :: "int \<Rightarrow> string" where
  "show_int i = (if i < 0 then ''-'' @ digits (- i) else digits i)"

text \<open>
  \<^verbatim>\<open>str.replace(pat, rep)\<close> with a string pattern: only the first occurrence is
  replaced (the replacements used below hold no \<^verbatim>\<open>$\<close>).
\<close>

fun replace_first :: "string \<Rightarrow> string \<Rightarrow> string \<Rightarrow> string" where
  "replace_first pat rep [] = (if pat = [] then rep else [])"
| "replace_first pat rep (c # cs) =
     (if startsWith (c # cs) pat then rep @ drop (length pat) (c # cs)
      else c # replace_first pat rep cs)"

text \<open>
  Numbers are binary64 floating point. The times and durations of the handler, in
  milliseconds, are integers or infinite: \<open>to_number i\<close> is the number nearest to the
  integer \<open>i\<close> (ties to the even significand, as every operation rounds), which is \<open>i\<close>
  itself up to 53 bits, and \<open>divide_number a b\<close> is the quotient of two such numbers as
  the division computes it, for \<open>0 < b\<close> and a quotient in the normal range.
\<close>

datatype number = Finite int | Infinity | MinusInfinity

function bit_length :: "int \<Rightarrow> nat" where
  "bit_length i = (if i \<le> 0 then 0 else Suc (bit_length (i div 2)))"
  by pat_completeness auto
termination
  by (relation "measure nat") auto

declare bit_length.simps [simp del]

definition round_half_even :: "int \<Rightarrow> int \<Rightarrow> int" where
  "round_half_even a b =
     (let q = a div b; r = a mod b
      in if 2 * r < b then q else if b < 2 * r then q + 1 else if even q then q else q + 1)"

definition nearest_double :: "int \<Rightarrow> int \<Rightarrow> rat" where
  "nearest_double a b =
     (let e = int (bit_length a) - int (bit_length b);
          sh = 53 - e;
          num = (if 0 \<le> sh then a * 2 ^ nat sh else a);
          den = (if 0 \<le> sh then b else b * 2 ^ nat (- sh));
          wide = (2 ^ 53 \<le> num div den);
          m = round_half_even num (if wide then 2 * den else den);
          sh' = (if wide then sh - 1 else sh)
      in if 0 \<le> sh' then Fract m (2 ^ nat sh') else of_int (m * 2 ^ nat (- sh')))"

definition divide_number :: "int \<Rightarrow> int \<Rightarrow> rat" where
  "divide_number a b =
     (if a = 0 then 0 else if a < 0 then - nearest_double (- a) b else nearest_double a b)"

definition to_number :: "int \<Rightarrow> number" where
  "to_number i =
     (if \<bar>i\<bar> < 2 ^ 53 then Finite i
      else let v = \<lfloor>divide_number i 1\<rfloor>
           in if 2 ^ 1024 \<le> v then Infinity
              else if v \<le> - (2 ^ 1024) then MinusInfinity
              else Finite v)"

text \<open>The arithmetic of lines 527 to 532 on these numbers.\<close>

definition add_number :: "int \<Rightarrow> number \<Rightarrow> number" where
  "add_number t a =
     (case a of
        Finite x \<Rightarrow> to_number (t + x)
      | Infinity \<Rightarrow> Infinity
      | MinusInfinity \<Rightarrow> MinusInfinity)"

definition less_number :: "int \<Rightarrow> number \<Rightarrow> bool" where
  "less_number t a =
     (case a of
        Finite x \<Rightarrow> t < x
      | Infinity \<Rightarrow> True
      | MinusInfinity \<Rightarrow> False)"

definition subtract_number :: "number \<Rightarrow> int \<Rightarrow> number" where
  "subtract_number a t =
     (case a of
        Finite x \<Rightarrow> to_number (x - t)
      | Infinity \<Rightarrow> Infinity
      | MinusInfinity \<Rightarrow> MinusInfinity)"

text \<open>
  The text of a number from \<open>10^21\<close> on: the shortest decimal \<open>d \<times> 10^(n - k)\<close> of \<open>k\<close>
  digits that rounds to the number, the nearest one if there are several, written as
  \<open>d.ddde+(n - 1)\<close>.
\<close>

definition decimals :: "int \<Rightarrow> nat \<Rightarrow> nat \<Rightarrow> (int \<times> nat \<times> nat) list" where
  "decimals x k n =
     map (\<lambda>d. (d, k, n))
       (filter (\<lambda>d. 10 ^ (k - 1) \<le> d \<and> d < 10 ^ k \<and> to_number (d * 10 ^ (n - k)) = Finite x)
          [x div 10 ^ (n - k), x div 10 ^ (n - k) + 1])"

definition closer :: "int \<Rightarrow> (int \<times> nat \<times> nat) \<Rightarrow> (int \<times> nat \<times> nat) \<Rightarrow> (int \<times> nat \<times> nat)" where
  "closer x p q =
     (case (p, q) of
        ((d, k, n), (d', k', n')) \<Rightarrow>
          let u = \<bar>d * 10 ^ (n - k) - x\<bar>; u' = \<bar>d' * 10 ^ (n' - k') - x\<bar>
          in if u < u' then p else if u' < u then q else if even d then p else q)"

definition shortest_decimal :: "int \<Rightarrow> (int \<times> nat \<times> nat) option" where
  "shortest_decimal x =
     (let nd = length (digits x)
      in case filter (\<lambda>ds. ds \<noteq> []) (map (\<lambda>k. decimals x k nd @ decimals x k (Suc nd)) [1..<18]) of
           [] \<Rightarrow> None
         | ds # _ \<Rightarrow> Some (fold (closer x) (tl ds) (hd ds)))"

definition exponent_form :: "int \<Rightarrow> string" where
  "exponent_form x =
     (case shortest_decimal x of
        None \<Rightarrow> digits x
      | Some (d, k, n) \<Rightarrow>
          (if k = 1 then digits d else take 1 (digits d) @ ''.'' @ drop 1 (digits d))
          @ ''e+'' @ digits (int n - 1))"

text \<open>
  \<^verbatim>\<open>(ms / 1000).toFixed(1)\<close> for a duration of \<open>ms\<close> milliseconds: the digits of the
  integer \<open>n\<close> for which \<open>n / 10\<close> is nearest to the quotient (the larger one of two), or
  the text of the quotient itself from \<open>10^21\<close> on.
\<close>

definition toFixed1 :: "number \<Rightarrow> string" where
  "toFixed1 ms =
     (case ms of
        Infinity \<Rightarrow> ''Infinity''
      | MinusInfinity \<Rightarrow> ''-Infinity''
      | Finite l \<Rightarrow>
          let x = divide_number l 1000;
              sign = (if x < 0 then ''-'' else '''');
              y = \<bar>x\<bar>
          in if 10 ^ 21 \<le> y then sign @ exponent_form \<lfloor>y\<rfloor>
             else let n = \<lfloor>10 * y + 1 / 2\<rfloor>
                  in sign @ digits (n div 10) @ ''.'' @ digits (n mod 10))"

text \<open>\<^verbatim>\<open>function s(int) { return int == 1 ? "" : "s"; }\<close>\<close>

definition s :: "'a::one \<Rightarrow> string" where
  "s x = (if x = 1 then '''' else ''s'')"

section \<open>Data model\<close>

datatype error = TypeError string | ReferenceError string | Thrown string

fun error_text :: "error \<Rightarrow> string" where
  "error_text (TypeError msg) = ''TypeError: '' @ msg"
| "error_text (ReferenceError msg) = ''ReferenceError: '' @ msg"
| "error_text (Thrown msg) = msg"

text \<open>
  A required permission is one name or an array of names; a permission snapshot
  (\<^verbatim>\<open>channel.permissionsFor(user)\<close>, which may be null) is known through its
  \<^verbatim>\<open>has\<close> method only.
\<close>

datatype perm_spec = PermName string | PermList "string list"

type_synonym perm_snapshot = "perm_spec \<Rightarrow> bool"

record message =
  author_id :: string
  author_bot :: bool
  author_username :: string
  webhookID :: "string option"
  content :: string
  channel_type :: string
  author_perms :: "perm_snapshot option"
  bot_perms :: "perm_snapshot option"

text \<open>
  A command file's export. \<open>execute\<close> is the handler as \<^verbatim>\<open>__message\<close> sees it: \<open>None\<close>
  when the call returns, \<open>Some e\<close> when the call throws \<open>e\<close>. What the handler does to
  the outside world is its own affair and is not part of the model.
\<close>

record command =
  name :: string
  aliases :: "string list option"
  args :: "int option"
  usage :: "string option"
  cooldown :: "int option"
  guildOnly :: bool
  dmsOnly :: bool
  ownersOnly :: bool
  permissions :: "perm_spec option"
  botPermissions :: "perm_spec option"
  blockedUsers :: "string list option"
  unblockedUsers :: "string list option"
  execute :: "message \<Rightarrow> string list \<Rightarrow> error option"

text \<open>\<^verbatim>\<open>this.data\<close>, as far as the message handler reads it.\<close>

record bot_data =
  prefixes :: "string list option"
  owners :: "string list option"
  data_blockedUsers :: "string list option"
  responces :: "string \<rightharpoonup> string list"

text \<open>
  \<^verbatim>\<open>client.cooldowns\<close>: command name to (user id to time of the last authorized
  use, in milliseconds), and the evictions scheduled with \<^verbatim>\<open>setTimeout\<close>: the time
  at which each is due, the bucket and the user it deletes.
\<close>

record client_state =
  cooldowns :: "string \<rightharpoonup> (string \<rightharpoonup> int)"
  timers :: "(int \<times> string \<times> string) list"

datatype responder =
    command_unknown | command_error | command_cooldown | command_guild_only
  | command_dms_only | command_owners_only | command_blocked | command_no_permission
  | command_no_bot_permission | command_incorrect_usage

text \<open>
  An embed: its title, the template drawn from the catalog and the substitutions
  applied to it with \<^verbatim>\<open>.replace(/{{x}}/g, value)\<close>, in the order of the calls.
\<close>

datatype embed = Embed (title: "string option") (template: string)
  (substitutions: "(string \<times> string) list")

type_synonym payload = "(string \<times> string) list"

datatype interaction_kind = IsCommand | IsButton | IsSelectMenu | IsOther

datatype event =
    Execute string "string list"
  | Respond responder payload
  | Send embed
  | ConsoleError error
  | ExecuteInteraction interaction_kind string
  | Reply embed bool

record result =
  events :: "event list"
  uncaught :: "error option"
  client :: client_state

section \<open>The command registry\<close>

text \<open>A Collection is a map that keeps the order of insertion.\<close>

fun collection_set :: "'k \<Rightarrow> 'v \<Rightarrow> ('k \<times> 'v) list \<Rightarrow> ('k \<times> 'v) list" where
  "collection_set k v [] = [(k, v)]"
| "collection_set k v ((k', v') # kvs) =
     (if k = k' then (k, v) # kvs else (k', v') # collection_set k v kvs)"

definition has :: "('k \<times> 'v) list \<Rightarrow> 'k \<Rightarrow> bool" where
  "has col k = (map_of col k \<noteq> None)"

definition loadCommands :: "command list \<Rightarrow> (string \<times> command) list" where
  "loadCommands files = fold (\<lambda>command col. collection_set (name command) command col) files []"

text \<open>
  \<^verbatim>\<open>client.commands.get(command_name) || client.commands.find(cmd => cmd.aliases &&
  cmd.aliases.includes(command_name))\<close>
\<close>

definition get_or_find :: "(string \<times> command) list \<Rightarrow> string \<Rightarrow> command option" where
  "get_or_find commands command_name =
     (case map_of commands command_name of
        Some command \<Rightarrow> Some command
      | None \<Rightarrow>
          find (\<lambda>cmd. case aliases cmd of None \<Rightarrow> False | Some al \<Rightarrow> command_name \<in> set al)
            (map snd commands))"

section \<open>Responders\<close>

text \<open>
  \<^verbatim>\<open>catalog[Math.floor(Math.random() * catalog.length)]\<close> followed by
  \<^verbatim>\<open>.replace\<close>: a missing catalog entry and an empty one both throw. \<open>r\<close> stands for the
  random number drawn.
\<close>

fun key :: "responder \<Rightarrow> string" where
  "key command_unknown = ''command_unknown''"
| "key command_error = ''command_error''"
| "key command_cooldown = ''command_cooldown''"
| "key command_guild_only = ''command_guild_only''"
| "key command_dms_only = ''command_dms_only''"
| "key command_owners_only = ''command_owners_only''"
| "key command_blocked = ''command_blocked''"
| "key command_no_permission = ''command_no_permission''"
| "key command_no_bot_permission = ''command_no_bot_permission''"
| "key command_incorrect_usage = ''command_incorrect_usage''"

definition pick :: "bot_data \<Rightarrow> nat \<Rightarrow> string \<Rightarrow> error + string" where
  "pick d r k =
     (case responces d k of
        None \<Rightarrow> Inl (TypeError ''Cannot read properties of undefined (reading 'length')'')
      | Some templates \<Rightarrow>
          if templates = []
          then Inl (TypeError ''Cannot read properties of undefined (reading 'replace')'')
          else Inr (templates ! (r mod length templates)))"

definition field :: "payload \<Rightarrow> string \<Rightarrow> string" where
  "field data f = (case map_of data f of None \<Rightarrow> ''undefined'' | Some v \<Rightarrow> v)"

fun embed_title :: "responder \<Rightarrow> string option" where
  "embed_title command_unknown = Some ''Unknown Command''"
| "embed_title command_error = Some ''Error''"
| "embed_title command_blocked = Some ''Blocked''"
| "embed_title _ = None"

fun replacements :: "responder \<Rightarrow> message \<Rightarrow> payload \<Rightarrow> (string \<times> string) list" where
  "replacements command_unknown m data =
     [(''{{command}}'', field data ''command_name''), (''{{prefix}}'', field data ''prefix'')]"
| "replacements command_error m data =
     [(''{{error}}'', field data ''error''), (''{{author}}'', author_username m),
      (''{{command}}'', field data ''command_name'')]"
| "replacements command_cooldown m data =
     [(''{{s}}'', field data ''s''), (''{{cooldown}}'', field data ''time_left''),
      (''{{author}}'', author_username m), (''{{command}}'', field data ''command_name'')]"
| "replacements command_guild_only m data =
     [(''{{author}}'', author_username m), (''{{command}}'', field data ''command_name'')]"
| "replacements command_dms_only m data =
     [(''{{author}}'', author_username m), (''{{command}}'', field data ''command_name'')]"
| "replacements command_owners_only m data =
     [(''{{s}}'', field data ''s''), (''{{author}}'', author_username m),
      (''{{command}}'', field data ''command_name'')]"
| "replacements command_blocked m data =
     [(''{{author}}'', author_username m), (''{{command}}'', field data ''command_name'')]"
| "replacements command_no_permission m data =
     [(''{{permissions}}'', field data ''permissions''), (''{{s}}'', field data ''s''),
      (''{{author}}'', author_username m), (''{{command}}'', field data ''command_name'')]"
| "replacements command_no_bot_permission m data =
     [(''{{permissions}}'', field data ''permissions''), (''{{s}}'', field data ''s''),
      (''{{author}}'', author_username m), (''{{command}}'', field data ''command_name'')]"
| "replacements command_incorrect_usage m data =
     [(''{{usage}}'', field data ''usage''), (''{{author}}'', author_username m),
      (''{{command}}'', field data ''command_name'')]"

text \<open>\<^verbatim>\<open>this.responces[k](message, data)\<close> up to the embed it hands to \<^verbatim>\<open>channel.send\<close>.\<close>

definition responce :: "bot_data \<Rightarrow> nat \<Rightarrow> message \<Rightarrow> responder \<Rightarrow> payload \<Rightarrow> error + embed" where
  "responce d r m k data =
     (case pick d r (key k) of
        Inl e \<Rightarrow> Inl e
      | Inr msg \<Rightarrow> Inr (Embed (embed_title k) msg (replacements k m data)))"

section \<open>The message handler\<close>

text \<open>
  The \<^verbatim>\<open>catch\<close> block of \<^verbatim>\<open>__message\<close>: the error is logged and answered with
  \<open>command_error\<close>; an error of that responder leaves the handler uncaught.
\<close>

definition catch_block ::
  "bot_data \<Rightarrow> nat \<Rightarrow> message \<Rightarrow> string \<Rightarrow> event list \<Rightarrow> client_state \<Rightarrow> error \<Rightarrow> result" where
  "catch_block d r m command_name evs st e =
     (let data = [(''error'', error_text e), (''command_name'', command_name)] in
      case responce d r m command_error data of
        Inl e' \<Rightarrow>
          \<lparr>events = evs @ [ConsoleError e, Respond command_error data],
           uncaught = Some e', client = st\<rparr>
      | Inr em \<Rightarrow>
          \<lparr>events = evs @ [ConsoleError e, Respond command_error data, Send em],
           uncaught = None, client = st\<rparr>)"

text \<open>\<^verbatim>\<open>return this.responces[k](message, data)\<close> inside the \<^verbatim>\<open>try\<close> block.\<close>

definition reject ::
  "bot_data \<Rightarrow> (nat \<Rightarrow> nat) \<Rightarrow> message \<Rightarrow> string \<Rightarrow> client_state \<Rightarrow> responder \<Rightarrow> payload \<Rightarrow> result" where
  "reject d rnd m command_name st k data =
     (case responce d (rnd 0) m k data of
        Inr em \<Rightarrow> \<lparr>events = [Respond k data, Send em], uncaught = None, client = st\<rparr>
      | Inl e \<Rightarrow> catch_block d (rnd 1) m command_name [Respond k data] st e)"

text \<open>
  \<^verbatim>\<open>var x = false; for (const y of ys) if (pred(y)) x = y;\<close> as used for the prefix
  and for the owner: no \<^verbatim>\<open>break\<close>, so a later match overwrites an earlier one.
\<close>

definition select_prefix :: "string list \<Rightarrow> string \<Rightarrow> string option" where
  "select_prefix ps text =
     fold (\<lambda>thisPrefix prefix. if startsWith text thisPrefix then Some thisPrefix else prefix)
       ps None"

definition select_owner :: "string list \<Rightarrow> string \<Rightarrow> string option" where
  "select_owner os uid =
     fold (\<lambda>thisOwner owner. if uid = thisOwner then Some thisOwner else owner) os None"

text \<open>Truthiness of a value that is \<^verbatim>\<open>false\<close>/\<^verbatim>\<open>undefined\<close> or a string.\<close>

definition truthy :: "string option \<Rightarrow> bool" where
  "truthy v = (case v of None \<Rightarrow> False | Some str \<Rightarrow> str \<noteq> [])"

definition or_empty :: "'a list option \<Rightarrow> 'a list" where
  "or_empty v = (case v of None \<Rightarrow> [] | Some xs \<Rightarrow> xs)"

definition is_blocked :: "bot_data \<Rightarrow> command \<Rightarrow> string \<Rightarrow> bool" where
  "is_blocked d command uid =
     ((uid \<in> set (or_empty (data_blockedUsers d)) \<or> uid \<in> set (or_empty (blockedUsers command)))
      \<and> uid \<notin> set (or_empty (unblockedUsers command)))"

definition cooldown_amount :: "command \<Rightarrow> number" where
  "cooldown_amount command =
     to_number ((case cooldown command of
                   None \<Rightarrow> 1
                 | Some c \<Rightarrow> if c = 0 then 1 else c) * 1000)"

definition ensure_bucket :: "string \<Rightarrow> client_state \<Rightarrow> client_state" where
  "ensure_bucket n st =
     (if cooldowns st n = None then st\<lparr>cooldowns := (cooldowns st)(n \<mapsto> Map.empty)\<rparr> else st)"

definition set_bucket :: "string \<Rightarrow> (string \<rightharpoonup> int) \<Rightarrow> client_state \<Rightarrow> client_state" where
  "set_bucket n b st = st\<lparr>cooldowns := (cooldowns st)(n \<mapsto> b)\<rparr>"

text \<open>
  \<^verbatim>\<open>setTimeout(callback, delay)\<close> called at \<open>now\<close>: the platform arms a delay that is
  not within 1 and \<open>2^31 - 1\<close> milliseconds with 1 millisecond.
\<close>

definition timeout_delay :: "number \<Rightarrow> int" where
  "timeout_delay delay =
     (case delay of
        Finite ms \<Rightarrow> if 1 \<le> ms \<and> ms \<le> 2147483647 then ms else 1
      | Infinity \<Rightarrow> 1
      | MinusInfinity \<Rightarrow> 1)"

definition set_timeout :: "int \<times> string \<times> string \<Rightarrow> client_state \<Rightarrow> client_state" where
  "set_timeout t st = st\<lparr>timers := timers st @ [t]\<rparr>"

definition timestamps :: "client_state \<Rightarrow> string \<Rightarrow> (string \<rightharpoonup> int)" where
  "timestamps st n = (case cooldowns st n of None \<Rightarrow> Map.empty | Some b \<Rightarrow> b)"

text \<open>
  The time left on the cooldown of \<open>command\<close> for user \<open>uid\<close> at \<open>now\<close>, in
  milliseconds (\<^verbatim>\<open>expiration_time - now\<close>), as the handler computes it: none without a
  record or once the expiry is reached.
\<close>

definition remaining :: "client_state \<Rightarrow> command \<Rightarrow> string \<Rightarrow> int \<Rightarrow> number option" where
  "remaining st command uid now =
     (case timestamps st (name command) uid of
        None \<Rightarrow> None
      | Some t \<Rightarrow>
          let expiration_time = add_number t (cooldown_amount command)
          in if less_number now expiration_time
             then Some (subtract_number expiration_time now)
             else None)"

definition format_time_left :: "number \<Rightarrow> string" where
  "format_time_left ms = replace_first ''.0'' '''' (replace_first ''0.'' ''.'' (toFixed1 ms))"

text \<open>
  \<^verbatim>\<open>s(parseFloat(time_left.toFixed(1)))\<close>: the text parses to the number 1 exactly when
  it is \<open>1.0\<close>.
\<close>

definition plural_time_left :: "number \<Rightarrow> string" where
  "plural_time_left ms = (if toFixed1 ms = ''1.0'' then s (1::int) else ''s'')"

definition perm_truthy :: "perm_spec option \<Rightarrow> bool" where
  "perm_truthy p =
     (case p of None \<Rightarrow> False | Some (PermName n) \<Rightarrow> n \<noteq> [] | Some (PermList ns) \<Rightarrow> True)"

text \<open>
  \<^verbatim>\<open>if (required) { if (!perms || !perms.has(required) || !perms.has("ADMINISTRATOR"))
  ... }\<close>
\<close>

definition permission_refused :: "perm_spec option \<Rightarrow> perm_snapshot option \<Rightarrow> bool" where
  "permission_refused required perms =
     (case required of
        None \<Rightarrow> False
      | Some req \<Rightarrow>
          perm_truthy required \<and>
          (case perms of
             None \<Rightarrow> True
           | Some p \<Rightarrow> \<not> p req \<or> \<not> p (PermName ''ADMINISTRATOR'')))"

text \<open>
  The data handed to the permission responders. The last equation is never used: the
  guard holds for a declared requirement only.
\<close>

fun permission_data :: "perm_spec option \<Rightarrow> string \<Rightarrow> payload" where
  "permission_data (Some (PermList ns)) command_name =
     [(''permissions'', toUpperCase (join_comma ns)), (''s'', s (length ns)),
      (''command_name'', command_name)]"
| "permission_data (Some (PermName n)) command_name =
     [(''permissions'', toUpperCase n), (''s'', ''''), (''command_name'', command_name)]"
| "permission_data None command_name =
     [(''permissions'', ''UNDEFINED''), (''s'', ''''), (''command_name'', command_name)]"

definition usage_text :: "command \<Rightarrow> int \<Rightarrow> string" where
  "usage_text command num_args =
     (if truthy (usage command) then '' '' @ or_empty (usage command)
      else if num_args = 0 then ''''
      else '' <'' @ show_int num_args @ '' required argument'' @ s num_args @ ''>'')"

text \<open>
  Lines 509 to 592 of \<^verbatim>\<open>__message\<close>: the guards on the resolved command, in the
  order of the source, then the cooldown record, its eviction and the handler. Lines 512
  to 514 replace a missing block-list by an empty one; \<open>or_empty\<close> reads them that way
  and the replacement itself is not kept in the state.
\<close>

definition guards ::
  "bot_data \<Rightarrow> (nat \<Rightarrow> nat) \<Rightarrow> int \<Rightarrow> message \<Rightarrow> client_state \<Rightarrow> string \<Rightarrow> string \<Rightarrow>
   string list \<Rightarrow> string option \<Rightarrow> command \<Rightarrow> result" where
  "guards d rnd now m st prefix command_name arguments owner command =
     (let num_args = (case args command of None \<Rightarrow> 0 | Some n \<Rightarrow> n) in
      if is_blocked d command (author_id m) then
        reject d rnd m command_name st command_blocked [(''command_name'', command_name)]
      else
        let st1 = ensure_bucket (name command) st in
        case remaining st1 command (author_id m) now of
          Some left \<Rightarrow>
            reject d rnd m command_name st1 command_cooldown
              [(''s'', plural_time_left left),
               (''time_left'', format_time_left left),
               (''command_name'', command_name)]
        | None \<Rightarrow>
            if guildOnly command \<and> channel_type m \<noteq> ''text'' then
              reject d rnd m command_name st1 command_guild_only
                [(''command_name'', command_name)]
            else if dmsOnly command \<and> channel_type m \<noteq> ''dm'' then
              reject d rnd m command_name st1 command_dms_only
                [(''command_name'', command_name)]
            else if ownersOnly command \<and> \<not> truthy owner then
              (case owners d of
                 None \<Rightarrow>
                   catch_block d (rnd 0) m command_name [] st1
                     (TypeError ''Cannot read properties of undefined (reading 'length')'')
               | Some os \<Rightarrow>
                   reject d rnd m command_name st1 command_owners_only
                     [(''s'', s (length os)), (''command_name'', command_name)])
            else if permission_refused (permissions command) (author_perms m) then
              reject d rnd m command_name st1 command_no_permission
                (permission_data (permissions command) command_name)
            else if permission_refused (botPermissions command) (bot_perms m) then
              reject d rnd m command_name st1 command_no_bot_permission
                (permission_data (botPermissions command) command_name)
            else if num_args \<noteq> int (length arguments) \<and> num_args \<noteq> 0 then
              reject d rnd m command_name st1 command_incorrect_usage
                [(''usage'', prefix @ command_name @ usage_text command num_args),
                 (''command_name'', command_name)]
            else
              let bucket = (timestamps st1 (name command))(author_id m \<mapsto> now);
                  timeout = (now + timeout_delay (cooldown_amount command), name command,
                             author_id m);
                  st2 = set_timeout timeout (set_bucket (name command) bucket st1)
              in (case execute command m arguments of
                    None \<Rightarrow>
                      \<lparr>events = [Execute (name command) arguments], uncaught = None,
                       client = st2\<rparr>
                  | Some e \<Rightarrow>
                      catch_block d (rnd 0) m command_name
                        [Execute (name command) arguments] st2 e))"

text \<open>Lines 498 to 508: the lookup of the command token.\<close>

definition dispatch ::
  "bot_data \<Rightarrow> (string \<times> command) list \<Rightarrow> (nat \<Rightarrow> nat) \<Rightarrow> int \<Rightarrow> message \<Rightarrow> client_state \<Rightarrow>
   string \<Rightarrow> string \<Rightarrow> string list \<Rightarrow> result" where
  "dispatch d commands rnd now m st prefix command_name arguments =
     (if \<not> has commands command_name then
        reject d rnd m command_name st command_unknown
          [(''command_name'', command_name), (''prefix'', prefix)]
      else
        let owner = select_owner (or_empty (owners d)) (author_id m) in
        case get_or_find commands command_name of
          None \<Rightarrow>
            catch_block d (rnd 0) m command_name [] st
              (TypeError ''Cannot read properties of undefined (reading 'args')'')
        | Some command \<Rightarrow>
            guards d rnd now m st prefix command_name arguments owner command)"

text \<open>
  \<^verbatim>\<open>__message(message)\<close> at time \<open>now\<close> (\<^verbatim>\<open>Date.now()\<close>), with the default (empty)
  \<^verbatim>\<open>onmessage\<close> hook. An event that is ignored has no events and leaves the state as
  it was.
\<close>

definition ignored :: "client_state \<Rightarrow> result" where
  "ignored st = \<lparr>events = [], uncaught = None, client = st\<rparr>"

definition dbf_message ::
  "bot_data \<Rightarrow> (string \<times> command) list \<Rightarrow> (nat \<Rightarrow> nat) \<Rightarrow> int \<Rightarrow> message \<Rightarrow> client_state \<Rightarrow>
   result" where
  "dbf_message d commands rnd now m st =
     (if author_bot m then ignored st
      else if truthy (webhookID m) then ignored st
      else
        let prefix = select_prefix (case prefixes d of None \<Rightarrow> [''!''] | Some ps \<Rightarrow> ps)
                       (content m)
        in if \<not> truthy prefix then ignored st
           else
             let p = or_empty prefix;
                 raw_args = split_spaces [] (trim (drop (length p) (content m)))
             in case raw_args of
                  [] \<Rightarrow>
                    catch_block d (rnd 0) m '''' [] st
                      (TypeError ''Cannot read properties of undefined (reading 'toLowerCase')'')
                | token # arguments \<Rightarrow>
                    let command_name = toLowerCase token
                    in if command_name = [] then ignored st
                       else dispatch d commands rnd now m st p command_name arguments)"

text \<open>
  Lines 485 to 496 on their own: the prefix, the command token and the arguments of a
  message that gets as far as the lookup of the command.
\<close>

definition parse :: "bot_data \<Rightarrow> message \<Rightarrow> (string \<times> string \<times> string list) option" where
  "parse d m =
     (if author_bot m then None
      else if truthy (webhookID m) then None
      else
        let prefix = select_prefix (case prefixes d of None \<Rightarrow> [''!''] | Some ps \<Rightarrow> ps)
                       (content m)
        in if \<not> truthy prefix then None
           else
             let p = or_empty prefix;
                 raw_args = split_spaces [] (trim (drop (length p) (content m)))
             in case raw_args of
                  [] \<Rightarrow> None
                | token # arguments \<Rightarrow>
                    let command_name = toLowerCase token
                    in if command_name = [] then None else Some (p, command_name, arguments))"

text \<open>The eviction a timer runs when it fires: \<^verbatim>\<open>timestamps.delete(message.author.id)\<close>.\<close>

definition evict :: "string \<Rightarrow> string \<Rightarrow> client_state \<Rightarrow> client_state" where
  "evict n uid st =
     (case cooldowns st n of
        None \<Rightarrow> st
      | Some b \<Rightarrow> st\<lparr>cooldowns := (cooldowns st)(n \<mapsto> b(uid := None))\<rparr>)"

text \<open>
  A scheduled eviction that runs: it is no longer pending and the user's record in its
  bucket, whatever it holds by then, is deleted. \<open>may_fire t tms st\<close> says that the
  evictions \<open>tms\<close> can run one after the other from state \<open>st\<close> by time \<open>t\<close>: each is
  pending when it runs and runs no earlier than it is due.
\<close>

definition fire :: "int \<times> string \<times> string \<Rightarrow> client_state \<Rightarrow> client_state" where
  "fire tm st = evict (fst (snd tm)) (snd (snd tm)) (st\<lparr>timers := remove1 tm (timers st)\<rparr>)"

fun may_fire :: "int \<Rightarrow> (int \<times> string \<times> string) list \<Rightarrow> client_state \<Rightarrow> bool" where
  "may_fire t [] st = True"
| "may_fire t (tm # tms) st = (tm \<in> set (timers st) \<and> fst tm \<le> t \<and> may_fire t tms (fire tm st))"

fun fire_all :: "(int \<times> string \<times> string) list \<Rightarrow> client_state \<Rightarrow> client_state" where
  "fire_all [] st = st"
| "fire_all (tm # tms) st = fire_all tms (fire tm st)"

section \<open>The interaction handler\<close>

record interaction =
  kind :: interaction_kind
  commandName :: string
  customId :: string

text \<open>
  The three handler tables (\<^verbatim>\<open>client.slash\<close>, \<^verbatim>\<open>client.buttons\<close>,
  \<^verbatim>\<open>client.selects\<close>); an entry stands for the \<^verbatim>\<open>execute\<close> of the registered object:
  \<open>None\<close> when it completes, \<open>Some e\<close> when it throws or rejects with \<open>e\<close>.
\<close>

record handler_tables =
  slash :: "(string \<times> (interaction \<Rightarrow> error option)) list"
  buttons :: "(string \<times> (interaction \<Rightarrow> error option)) list"
  selects :: "(string \<times> (interaction \<Rightarrow> error option)) list"

text \<open>
  The file is strict-mode code (\<^verbatim>\<open>"use strict"\<close>, and a class body): assigning to an
  identifier that no enclosing scope declares and that is no property of the global
  object throws a ReferenceError. \<open>interaction_scope\<close> lists the bindings visible in the
  \<^verbatim>\<open>catch\<close> block of \<^verbatim>\<open>__interaction\<close>, before the properties \<open>globals\<close> of the global
  object.
\<close>

definition interaction_scope :: "string list \<Rightarrow> string list" where
  "interaction_scope globals =
     [''error'', ''command'', ''responces'', ''interaction'', ''s'', ''DiscordBot'', ''fs'']
     @ globals"

definition assign :: "string list \<Rightarrow> string \<Rightarrow> error + unit" where
  "assign scope x =
     (if x \<in> set scope then Inr () else Inl (ReferenceError (x @ '' is not defined'')))"

definition dbf_interaction ::
  "bot_data \<Rightarrow> string list \<Rightarrow> nat \<Rightarrow> handler_tables \<Rightarrow> interaction \<Rightarrow> client_state \<Rightarrow> result" where
  "dbf_interaction d globals r tables i st =
     (case kind i of
        IsCommand \<Rightarrow>
          (case map_of (slash tables) (commandName i) of
             None \<Rightarrow> ignored st
           | Some command \<Rightarrow>
               (case command i of
                  None \<Rightarrow>
                    \<lparr>events = [ExecuteInteraction IsCommand (commandName i)],
                     uncaught = None, client = st\<rparr>
                | Some error \<Rightarrow>
                    let evs = [ExecuteInteraction IsCommand (commandName i), ConsoleError error]
                    in (case pick d r ''command_error'' of
                          Inl e \<Rightarrow> \<lparr>events = evs, uncaught = Some e, client = st\<rparr>
                        | Inr msg \<Rightarrow>
                            (case assign (interaction_scope globals) ''msg'' of
                               Inl e \<Rightarrow> \<lparr>events = evs, uncaught = Some e, client = st\<rparr>
                             | Inr _ \<Rightarrow>
                                 (case assign (interaction_scope globals) ''embed'' of
                                    Inl e \<Rightarrow> \<lparr>events = evs, uncaught = Some e, client = st\<rparr>
                                  | Inr _ \<Rightarrow>
                                      \<lparr>events = evs @
                                         [Reply (Embed (Some ''Error'') msg
                                            [(''{{error}}'', error_text error)]) True],
                                       uncaught = None, client = st\<rparr>)))))
      | IsButton \<Rightarrow>
          (case map_of (buttons tables) (customId i) of
             None \<Rightarrow> ignored st
           | Some button \<Rightarrow>
               (case button i of
                  None \<Rightarrow>
                    \<lparr>events = [ExecuteInteraction IsButton (customId i)],
                     uncaught = None, client = st\<rparr>
                | Some error \<Rightarrow>
                    \<lparr>events = [ExecuteInteraction IsButton (customId i), ConsoleError error],
                     uncaught = None, client = st\<rparr>))
      | IsSelectMenu \<Rightarrow>
          (case map_of (selects tables) (customId i) of
             None \<Rightarrow> ignored st
           | Some select \<Rightarrow>
               (case select i of
                  None \<Rightarrow>
                    \<lparr>events = [ExecuteInteraction IsSelectMenu (customId i)],
                     uncaught = None, client = st\<rparr>
                | Some error \<Rightarrow>
                    \<lparr>events = [ExecuteInteraction IsSelectMenu (customId i), ConsoleError error],
                     uncaught = None, client = st\<rparr>))
      | IsOther \<Rightarrow> ignored st)"

section \<open>Observations on a result\<close>

fun is_execute :: "event \<Rightarrow> bool" where
  "is_execute (Execute n a) = True"
| "is_execute _ = False"

fun is_send :: "event \<Rightarrow> bool" where
  "is_send (Send em) = True"
| "is_send _ = False"

fun is_reply :: "event \<Rightarrow> bool" where
  "is_reply (Reply em ephemeral) = True"
| "is_reply _ = False"

definition handler_runs :: "result \<Rightarrow> nat" where
  "handler_runs r = length (filter is_execute (events r))"

definition responses_sent :: "result \<Rightarrow> nat" where
  "responses_sent r = length (filter is_send (events r))"

text \<open>The rejection an event ends in: the responder the handler calls first, if any.\<close>

fun rejection :: "event list \<Rightarrow> responder option" where
  "rejection (Respond k data # evs) = Some k"
| "rejection _ = None"

section \<open>Concrete configurations\<close>

text \<open>The catalog of the constructor's default \<^verbatim>\<open>data\<close>.\<close>

definition default_responces :: "string \<rightharpoonup> string list" where
  "default_responces = map_of
     [(''command_unknown'', [''This command doesn't exist'']),
      (''command_error'', [''Something went wrong: ```{{error}}```'']),
      (''command_cooldown'',
         [''Please wait `{{cooldown}}` second{{s}} before using this command again'']),
      (''command_guild_only'', [''This command can only be used in a server'']),
      (''command_dms_only'', [''This command can only be used in DMs'']),
      (''command_owners_only'', [''Only bot owners can use this command'']),
      (''command_blocked'', [''You are blocked from using this command'']),
      (''command_no_permission'', [''You don't have permission to use this command'']),
      (''command_no_bot_permission'', [''I don't have permission to use this command'']),
      (''command_incorrect_usage'', [''Please use this command correctly: `{{usage}}`''])]"

definition default_data :: bot_data where
  "default_data =
     \<lparr>prefixes = Some [''!''], owners = Some [], data_blockedUsers = Some [],
      responces = default_responces\<rparr>"

definition plain_command :: "string \<Rightarrow> command" where
  "plain_command n =
     \<lparr>name = n, aliases = None, args = None, usage = None, cooldown = None,
      guildOnly = False, dmsOnly = False, ownersOnly = False, permissions = None,
      botPermissions = None, blockedUsers = None, unblockedUsers = None,
      execute = (\<lambda>m a. None)\<rparr>"

text \<open>
  The platform's \<^verbatim>\<open>Permissions.has\<close> for a member granted the permissions \<open>granted\<close>:
  an administrator has every permission.
\<close>

fun required_names :: "perm_spec \<Rightarrow> string list" where
  "required_names (PermName n) = [n]"
| "required_names (PermList ns) = ns"

definition snapshot :: "string list \<Rightarrow> perm_snapshot" where
  "snapshot granted req =
     (''ADMINISTRATOR'' \<in> set granted \<or> set (required_names req) \<subseteq> set granted)"

definition user_message :: "string \<Rightarrow> message" where
  "user_message txt =
     \<lparr>author_id = ''42'', author_bot = False, author_username = ''ann'', webhookID = None,
      content = txt, channel_type = ''text'', author_perms = Some (snapshot []),
      bot_perms = Some (snapshot [''ADMINISTRATOR''])\<rparr>"

definition fresh :: client_state where
  "fresh = \<lparr>cooldowns = Map.empty, timers = []\<rparr>"


text \<open>
  The state lines 589 and 590 leave behind for command \<open>c\<close> and user \<open>uid\<close>, and the
  relation between two states that hold the same cooldown records and the same
  scheduled evictions (an empty bucket may have been added).
\<close>

definition after_authorization :: "int \<Rightarrow> string \<Rightarrow> command \<Rightarrow> client_state \<Rightarrow> client_state" where
  "after_authorization now uid c st =
     set_timeout (now + timeout_delay (cooldown_amount c), name c, uid)
       (set_bucket (name c) ((timestamps st (name c))(uid \<mapsto> now)) (ensure_bucket (name c) st))"

definition records_kept :: "client_state \<Rightarrow> client_state \<Rightarrow> bool" where
  "records_kept st st' = (timestamps st' = timestamps st \<and> timers st' = timers st)"

text \<open>Commands used as concrete inputs.\<close>

definition kick_command :: command where
  "kick_command = (plain_command ''kick'')\<lparr>permissions := Some (PermList [''KICK_MEMBERS''])\<rparr>"

definition help_command :: command where
  "help_command = (plain_command ''help'')\<lparr>aliases := Some [''h'']\<rparr>"

definition failing_handler :: "message \<Rightarrow> string list \<Rightarrow> error option" where
  "failing_handler m a = Some (Thrown ''Error: boom'')"

definition boom_command :: command where
  "boom_command = (plain_command ''boom'')\<lparr>execute := failing_handler\<rparr>"

definition slow_command :: command where
  "slow_command = (plain_command ''slow'')\<lparr>cooldown := Some 30\<rparr>"

definition add_command :: command where
  "add_command = (plain_command ''add'')\<lparr>args := Some 2\<rparr>"


definition zero_command :: command where
  "zero_command = (plain_command ''zero'')\<lparr>cooldown := Some 0\<rparr>"

definition one_command :: command where
  "one_command = (plain_command ''one'')\<lparr>cooldown := Some 1\<rparr>"

definition long_command :: command where
  "long_command = (plain_command ''long'')\<lparr>cooldown := Some 2147484\<rparr>"

text \<open>Handler tables and global names used as concrete inputs.\<close>

definition failing_interaction :: "interaction \<Rightarrow> error option" where
  "failing_interaction i = Some (Thrown ''Error: boom'')"

definition ping_tables :: handler_tables where
  "ping_tables =
     \<lparr>slash = [(''ping'', failing_interaction)], buttons = [(''ok'', failing_interaction)],
      selects = []\<rparr>"

definition node_globals :: "string list" where
  "node_globals =
     [''globalThis'', ''console'', ''process'', ''require'', ''module'', ''exports'', ''Math'',
      ''Date'', ''setTimeout'', ''setInterval'']"

text \<open>
  The duration format as the specification words it: one decimal place, then a trailing
  \<open>.0\<close> dropped and a leading \<open>0.\<close> collapsed to \<open>.\<close>. It is compared below with
  \<open>format_time_left\<close>, which is the source's.
\<close>

definition ends_with :: "string \<Rightarrow> string \<Rightarrow> bool" where
  "ends_with str suffix = startsWith (rev str) (rev suffix)"

definition spec_format_time_left :: "number \<Rightarrow> string" where
  "spec_format_time_left ms =
     (let fixed = toFixed1 ms;
          dropped = (if ends_with fixed ''.0'' then take (length fixed - 2) fixed else fixed)
      in if startsWith dropped ''0.'' then drop 1 dropped else dropped)"

section \<open>Lemmas on the handler\<close>

lemma split_spaces_not_Nil: "split_spaces acc str \<noteq> []"
  by (induction acc str rule: split_spaces.induct) auto

lemma select_prefix_snoc:
  "select_prefix (ps @ [p]) txt = (if startsWith txt p then Some p else select_prefix ps txt)"
  by (simp add: select_prefix_def)

lemma select_prefix_last:
  "select_prefix ps txt =
     (if filter (startsWith txt) ps = [] then None else Some (last (filter (startsWith txt) ps)))"
  by (induction ps rule: rev_induct) (simp_all add: select_prefix_snoc, simp add: select_prefix_def)



lemma client_catch_block [simp]: "client (catch_block d r m cn evs st e) = st"
  by (simp add: catch_block_def Let_def split: sum.split)

lemma client_reject [simp]: "client (reject d rnd m cn st k data) = st"
  by (simp add: reject_def split: sum.split)

lemma rejection_reject [simp]: "rejection (events (reject d rnd m cn st k data)) = Some k"
  by (simp add: reject_def catch_block_def Let_def split: sum.split)

lemma executes_catch_block [simp]:
  "filter is_execute (events (catch_block d r m cn evs st e)) = filter is_execute evs"
  by (simp add: catch_block_def Let_def split: sum.split)

lemma executes_reject [simp]: "filter is_execute (events (reject d rnd m cn st k data)) = []"
  by (simp add: reject_def split: sum.split)

lemma handler_runs_ignored [simp]: "handler_runs (ignored st) = 0"
  by (simp add: ignored_def handler_runs_def)

lemma timestamps_ensure_bucket [simp]: "timestamps (ensure_bucket n st) = timestamps st"
  by (rule ext) (simp add: timestamps_def ensure_bucket_def)

lemma timers_ensure_bucket [simp]: "timers (ensure_bucket n st) = timers st"
  by (simp add: ensure_bucket_def)

lemma remaining_ensure_bucket [simp]:
  "remaining (ensure_bucket n st) c uid now = remaining st c uid now"
  by (simp add: remaining_def)

lemma rejection_catch_block_Cons [simp]:
  "rejection (events (catch_block d r m cn (ev # evs) st e)) = rejection (ev # evs)"
  by (cases ev) (simp_all add: catch_block_def Let_def split: sum.split)

lemma rejection_catch_block_Nil [simp]:
  "rejection (events (catch_block d r m cn [] st e)) = None"
  by (simp add: catch_block_def Let_def split: sum.split)




lemma handler_runs_reject [simp]: "handler_runs (reject d rnd m cn st k data) = 0"
  by (simp add: handler_runs_def)

lemma handler_runs_catch_block [simp]:
  "handler_runs (catch_block d r m cn evs st e) = length (filter is_execute evs)"
  by (simp add: handler_runs_def)

lemma records_kept_refl [simp]: "records_kept st st"
  by (simp add: records_kept_def)

lemma records_kept_ensure_bucket [simp]: "records_kept st (ensure_bucket n st)"
  by (simp add: records_kept_def)

lemma execute_in_catch_block [simp]:
  "ev \<in> set (events (catch_block d r m cn (ev # evs) st e))"
  by (simp add: catch_block_def Let_def split: sum.split)


lemma get_or_find_mem: "get_or_find commands cn = Some c \<Longrightarrow> c \<in> snd ` set commands"
proof (cases "map_of commands cn")
  case None
  assume "get_or_find commands cn = Some c"
  then have "c \<in> set (map snd commands)"
    using None by (auto simp: get_or_find_def find_Some_iff)
  then show ?thesis by simp
next
  case (Some c')
  assume "get_or_find commands cn = Some c"
  then have "(cn, c) \<in> set commands"
    using Some by (simp add: get_or_find_def map_of_SomeD)
  then show ?thesis by force
qed

lemma guards_cases:
  assumes rej: "\<And>st' k data. records_kept st st' \<Longrightarrow> P (reject d rnd m cn st' k data)"
      and thrown: "\<And>st' e. records_kept st st' \<Longrightarrow> P (catch_block d (rnd 0) m cn [] st' e)"
      and ran: "execute c m arguments = None \<Longrightarrow>
                P \<lparr>events = [Execute (name c) arguments], uncaught = None,
                   client = after_authorization now (author_id m) c st\<rparr>"
      and threw: "\<And>e. execute c m arguments = Some e \<Longrightarrow>
                P (catch_block d (rnd 0) m cn [Execute (name c) arguments]
                     (after_authorization now (author_id m) c st) e)"
  shows "P (guards d rnd now m st prefix cn arguments owner c)"
proof -
  define n where "n = (case args c of None \<Rightarrow> 0 | Some declared \<Rightarrow> declared)"
  define mismatch where "mismatch = (n \<noteq> int (length arguments) \<and> n \<noteq> 0)"
  show ?thesis
    unfolding guards_def Let_def n_def [symmetric] mismatch_def [symmetric]
    by (simp add: rej thrown ran [unfolded after_authorization_def]
        threw [unfolded after_authorization_def] split: option.split)
qed

lemma dispatch_cases:
  assumes rej: "\<And>st' k data. records_kept st st' \<Longrightarrow> P (reject d rnd m cn st' k data)"
      and thrown: "\<And>st' e. records_kept st st' \<Longrightarrow> P (catch_block d (rnd 0) m cn [] st' e)"
      and ran: "\<And>c. c \<in> snd ` set commands \<Longrightarrow> execute c m arguments = None \<Longrightarrow>
                P \<lparr>events = [Execute (name c) arguments], uncaught = None,
                   client = after_authorization now (author_id m) c st\<rparr>"
      and threw: "\<And>c e. c \<in> snd ` set commands \<Longrightarrow> execute c m arguments = Some e \<Longrightarrow>
                P (catch_block d (rnd 0) m cn [Execute (name c) arguments]
                     (after_authorization now (author_id m) c st) e)"
  shows "P (dispatch d commands rnd now m st prefix cn arguments)"
proof (cases "has commands cn")
  case False
  then show ?thesis by (simp add: dispatch_def rej)
next
  case True
  show ?thesis
  proof (cases "get_or_find commands cn")
    case None
    then show ?thesis using True by (simp add: dispatch_def Let_def thrown)
  next
    case (Some c)
    have "P (guards d rnd now m st prefix cn arguments
               (select_owner (or_empty (owners d)) (author_id m)) c)"
      by (rule guards_cases) (simp_all add: rej thrown ran threw get_or_find_mem [OF Some])
    then show ?thesis using True Some by (simp add: dispatch_def Let_def)
  qed
qed

lemma dbf_message_cases:
  assumes ign: "P \<lparr>events = [], uncaught = None, client = st\<rparr>"
      and rej: "\<And>st' cn k data. records_kept st st' \<Longrightarrow> P (reject d rnd m cn st' k data)"
      and thrown: "\<And>st' cn e. records_kept st st' \<Longrightarrow> P (catch_block d (rnd 0) m cn [] st' e)"
      and ran: "\<And>c a. c \<in> snd ` set commands \<Longrightarrow> execute c m a = None \<Longrightarrow>
                P \<lparr>events = [Execute (name c) a], uncaught = None,
                   client = after_authorization now (author_id m) c st\<rparr>"
      and threw: "\<And>c a cn e. c \<in> snd ` set commands \<Longrightarrow> execute c m a = Some e \<Longrightarrow>
                P (catch_block d (rnd 0) m cn [Execute (name c) a]
                     (after_authorization now (author_id m) c st) e)"
  shows "P (dbf_message d commands rnd now m st)"
proof -
  have disp: "P (dispatch d commands rnd now m st p cn a)" for p cn a
    by (rule dispatch_cases) (simp_all add: rej thrown ran threw)
  show ?thesis
    unfolding dbf_message_def Let_def
    by (simp add: ignored_def ign disp thrown split: list.split)
qed

lemma after_authorization_record:
  "timestamps (after_authorization now uid c st) (name c) uid = Some now"
  by (simp add: after_authorization_def set_timeout_def set_bucket_def timestamps_def)

lemma after_authorization_timer:
  "(now + timeout_delay (cooldown_amount c), name c, uid)
     \<in> set (timers (after_authorization now uid c st))"
  by (simp add: after_authorization_def set_timeout_def)

lemma remaining_evict: "remaining (evict n uid st) c uid t = None" if "n = name c"
  using that by (simp add: remaining_def evict_def timestamps_def split: option.split)

lemma dbf_message_parsed:
  "parse d m = Some (prefix, command_name, arguments) \<Longrightarrow>
   dbf_message d commands rnd now m st =
     dispatch d commands rnd now m st prefix command_name arguments"
  by (auto simp: parse_def dbf_message_def Let_def split: if_splits list.splits)

lemma to_number_exact: "\<bar>i\<bar> < 2 ^ 53 \<Longrightarrow> to_number i = Finite i"
  by (simp add: to_number_def)

lemma timers_evict [simp]: "timers (evict n uid st) = timers st"
  by (simp add: evict_def split: option.split)

lemma timers_fire [simp]: "timers (fire tm st) = remove1 tm (timers st)"
  by (simp add: fire_def)

lemma timestamps_fire:
  "timestamps (fire tm st) n uid = (if snd tm = (n, uid) then None else timestamps st n uid)"
  by (cases tm) (auto simp: fire_def evict_def timestamps_def split: option.split)

lemma timestamps_fire_all_kept:
  "may_fire t fired st \<Longrightarrow> \<forall>tm \<in> set (timers st). snd tm = (n, uid) \<longrightarrow> t < fst tm \<Longrightarrow>
   timestamps (fire_all fired st) n uid = timestamps st n uid"
proof (induction fired arbitrary: st)
  case Nil
  then show ?case by simp
next
  case (Cons tm tms)
  from Cons.prems have tm: "tm \<in> set (timers st)" "fst tm \<le> t" and rest: "may_fire t tms (fire tm st)"
    by simp_all
  have other: "snd tm \<noteq> (n, uid)"
    using Cons.prems(2) tm by fastforce
  have inv: "\<forall>tm' \<in> set (timers (fire tm st)). snd tm' = (n, uid) \<longrightarrow> t < fst tm'"
    using Cons.prems(2) by (auto dest: notin_set_remove1)
  have "timestamps (fire_all tms (fire tm st)) n uid = timestamps (fire tm st) n uid"
    by (rule Cons.IH [OF rest inv])
  then show ?case using other by (simp add: timestamps_fire)
qed

lemma timestamps_fire_all_cases:
  "timestamps (fire_all fired st) n uid = None
   \<or> timestamps (fire_all fired st) n uid = timestamps st n uid"
proof (induction fired arbitrary: st)
  case Nil
  then show ?case by simp
next
  case (Cons tm tms)
  show ?case using Cons.IH [of "fire tm st"] by (auto simp: timestamps_fire)
qed

lemma guards_authorized_state:
  "handler_runs (guards d rnd now m st prefix cn arguments owner c) = 1 \<Longrightarrow>
   client (guards d rnd now m st prefix cn arguments owner c) =
     after_authorization now (author_id m) c st"
  by (rule guards_cases
      [where P = "\<lambda>r. handler_runs r = 1 \<longrightarrow> client r = after_authorization now (author_id m) c st",
        rule_format])
     (simp_all add: handler_runs_def)

lemma dbf_message_records_kept:
  "handler_runs (dbf_message d commands rnd now m st) = 0 \<Longrightarrow>
   records_kept st (client (dbf_message d commands rnd now m st))"
  by (rule dbf_message_cases
      [where P = "\<lambda>r. handler_runs r = 0 \<longrightarrow> records_kept st (client r)", rule_format])
     (simp_all add: handler_runs_def)

lemma guards_reach_arity:
  assumes "\<not> is_blocked d c (author_id m)"
      and "remaining st c (author_id m) now = None"
      and "\<not> (guildOnly c \<and> channel_type m \<noteq> ''text'')"
      and "\<not> (dmsOnly c \<and> channel_type m \<noteq> ''dm'')"
      and "\<not> (ownersOnly c \<and> \<not> truthy owner)"
      and "\<not> permission_refused (permissions c) (author_perms m)"
      and "\<not> permission_refused (botPermissions c) (bot_perms m)"
      and "n = (case args c of None \<Rightarrow> 0 | Some declared \<Rightarrow> declared)"
  shows "guards d rnd now m st prefix command_name arguments owner c =
     (if n \<noteq> int (length arguments) \<and> n \<noteq> 0 then
        reject d rnd m command_name (ensure_bucket (name c) st) command_incorrect_usage
          [(''usage'', prefix @ command_name @ usage_text c n), (''command_name'', command_name)]
      else
        (case execute c m arguments of
           None \<Rightarrow>
             \<lparr>events = [Execute (name c) arguments], uncaught = None,
              client = set_timeout (now + timeout_delay (cooldown_amount c), name c, author_id m)
                (set_bucket (name c)
                   ((timestamps st (name c))(author_id m \<mapsto> now)) (ensure_bucket (name c) st))\<rparr>
         | Some e \<Rightarrow>
             catch_block d (rnd 0) m command_name [Execute (name c) arguments]
               (set_timeout (now + timeout_delay (cooldown_amount c), name c, author_id m)
                  (set_bucket (name c)
                     ((timestamps st (name c))(author_id m \<mapsto> now)) (ensure_bucket (name c) st)))
               e))"
proof -
  have conds:
    "is_blocked d c (author_id m) = False"
    "(guildOnly c \<and> channel_type m \<noteq> ''text'') = False"
    "(dmsOnly c \<and> channel_type m \<noteq> ''dm'') = False"
    "(ownersOnly c \<and> \<not> truthy owner) = False"
    "permission_refused (permissions c) (author_perms m) = False"
    "permission_refused (botPermissions c) (bot_perms m) = False"
    using assms by blast+
  show ?thesis
    unfolding guards_def Let_def conds assms(8)[symmetric]
    by (simp add: assms(2) cong: option.case_cong)
qed

text \<open>
  Three facts that hold for every input: a token that is no registered name is answered
  as unknown whatever the aliases are; the permission guards refuse every snapshot
  without \<^verbatim>\<open>ADMINISTRATOR\<close>; an interaction is never replied to unless the global object
  has a property \<^verbatim>\<open>msg\<close>.
\<close>

lemma token_without_name_is_unknown:
  "\<not> has commands command_name \<Longrightarrow>
   rejection (events (dispatch d commands rnd now m st prefix command_name arguments)) =
     Some command_unknown"
  by (simp add: dispatch_def)

lemma non_administrator_is_refused:
  "perm_truthy (Some req) \<Longrightarrow> \<not> p (PermName ''ADMINISTRATOR'') \<Longrightarrow>
   permission_refused (Some req) (Some p)"
  by (simp add: permission_refused_def)

lemma command_interaction_never_replies:
  "''msg'' \<notin> set globals \<Longrightarrow>
   filter is_reply (events (dbf_interaction d globals r tables i st)) = []"
  by (simp add: dbf_interaction_def assign_def interaction_scope_def ignored_def Let_def
      split: interaction_kind.split option.split sum.split)

section \<open>The claims\<close>

text \<open>
  Claim C1. A command that declares required user permissions rejects with
  MissingUserPermission exactly when the invoker's snapshot lacks them; an invoker who
  holds every required permission passes the guard.

  The source refuses unless the snapshot also has \<^verbatim>\<open>ADMINISTRATOR\<close> (line 555 joins the two
  tests with \<^verbatim>\<open>||\<close>): a member who holds \<^verbatim>\<open>KICK_MEMBERS\<close>, the one permission the command
  requires, is answered with \<open>command_no_permission\<close>; an administrator runs the command.
\<close>

theorem permission_holder_refused:
  "snapshot [''KICK_MEMBERS''] (PermList [''KICK_MEMBERS''])
   \<and> events (dbf_message default_data (loadCommands [kick_command]) (\<lambda>_. 0) 1000
        ((user_message ''!kick'')\<lparr>author_perms := Some (snapshot [''KICK_MEMBERS''])\<rparr>) fresh) =
       [Respond command_no_permission
          [(''permissions'', ''KICK_MEMBERS''), (''s'', ''''), (''command_name'', ''kick'')],
        Send (Embed None ''You don't have permission to use this command''
          [(''{{permissions}}'', ''KICK_MEMBERS''), (''{{s}}'', ''''), (''{{author}}'', ''ann''),
           (''{{command}}'', ''kick'')])]
   \<and> events (dbf_message default_data (loadCommands [kick_command]) (\<lambda>_. 0) 1000
        ((user_message ''!kick'')\<lparr>author_perms := Some (snapshot [''ADMINISTRATOR''])\<rparr>) fresh) =
       [Execute ''kick'' []]"
  by code_simp

text \<open>
  Claim C2. A message whose command token is an alias of a registered command resolves
  to that command and is not answered as unknown.

  The lookup of line 508 does find the command by its alias, but line 498 has already
  answered \<open>command_unknown\<close> for every token that is not a registered name.
\<close>

theorem alias_is_unknown:
  "map_option name (get_or_find (loadCommands [help_command]) ''h'') = Some ''help''
   \<and> events (dbf_message default_data (loadCommands [help_command]) (\<lambda>_. 0) 1000
        (user_message ''!h'') fresh) =
       [Respond command_unknown [(''command_name'', ''h''), (''prefix'', ''!'')],
        Send (Embed (Some ''Unknown Command'') ''This command doesn't exist''
          [(''{{command}}'', ''h''), (''{{prefix}}'', ''!'')])]
   \<and> events (dbf_message default_data (loadCommands [help_command]) (\<lambda>_. 0) 1000
        (user_message ''!help'') fresh) = [Execute ''help'' []]"
  by code_simp

text \<open>
  Claim C3, as amended. If at least one configured prefix is a literal prefix of the text,
  the last such prefix in declaration order is the one selected, and when it is not the
  empty string its length is what is stripped before the text is split into the command
  token and the arguments; if no configured prefix matches, the event is ignored: no
  event, no error, the state as it was.
\<close>

theorem last_matching_prefix_selected:
  assumes "ps = (case prefixes d of None \<Rightarrow> [''!''] | Some configured \<Rightarrow> configured)"
      and "matching = filter (startsWith (content m)) ps"
  shows "(matching = [] \<longrightarrow>
            dbf_message d commands rnd now m st = \<lparr>events = [], uncaught = None, client = st\<rparr>)
       \<and> (matching \<noteq> [] \<longrightarrow> select_prefix ps (content m) = Some (last matching))
       \<and> (matching \<noteq> [] \<and> last matching \<noteq> [] \<and> \<not> author_bot m \<and> \<not> truthy (webhookID m) \<longrightarrow>
            dbf_message d commands rnd now m st =
              (let raw_args = split_spaces [] (trim (drop (length (last matching)) (content m)));
                   command_name = toLowerCase (hd raw_args)
               in if command_name = [] then \<lparr>events = [], uncaught = None, client = st\<rparr>
                  else dispatch d commands rnd now m st (last matching) command_name
                         (tl raw_args)))"
proof (intro conjI impI)
  assume "matching = []"
  then have "select_prefix ps (content m) = None"
    using assms(2) by (simp add: select_prefix_last)
  then show "dbf_message d commands rnd now m st = \<lparr>events = [], uncaught = None, client = st\<rparr>"
    using assms(1) by (simp add: dbf_message_def ignored_def truthy_def)
next
  assume "matching \<noteq> []"
  then show "select_prefix ps (content m) = Some (last matching)"
    using assms(2) by (simp add: select_prefix_last)
next
  assume h: "matching \<noteq> [] \<and> last matching \<noteq> [] \<and> \<not> author_bot m \<and> \<not> truthy (webhookID m)"
  then have sel: "select_prefix ps (content m) = Some (last matching)"
    using assms(2) by (simp add: select_prefix_last)
  obtain token arguments
    where raw: "split_spaces [] (trim (drop (length (last matching)) (content m))) = token # arguments"
    using split_spaces_not_Nil by (meson list.exhaust)
  show "dbf_message d commands rnd now m st =
              (let raw_args = split_spaces [] (trim (drop (length (last matching)) (content m)));
                   command_name = toLowerCase (hd raw_args)
               in if command_name = [] then \<lparr>events = [], uncaught = None, client = st\<rparr>
                  else dispatch d commands rnd now m st (last matching) command_name
                         (tl raw_args))"
    using h sel raw assms(1)
    by (simp add: dbf_message_def ignored_def truthy_def or_empty_def Let_def)
qed

theorem last_matching_prefix_selected_witness:
  "select_prefix [''!'', ''!!''] ''!!help a'' = Some ''!!''
   \<and> dbf_message (default_data\<lparr>prefixes := Some [''!'', ''!!'']\<rparr>) (loadCommands [help_command])
        (\<lambda>_. 0) 1000 (user_message ''!!help a'') fresh
     = dispatch (default_data\<lparr>prefixes := Some [''!'', ''!!'']\<rparr>) (loadCommands [help_command])
        (\<lambda>_. 0) 1000 (user_message ''!!help a'') fresh ''!!'' ''help'' [''a'']
   \<and> dbf_message (default_data\<lparr>prefixes := Some [''!'', ''!!'']\<rparr>) (loadCommands [help_command])
        (\<lambda>_. 0) 1000 (user_message ''help a'') fresh
     = \<lparr>events = [], uncaught = None, client = fresh\<rparr>"
proof -
  let ?d = "default_data\<lparr>prefixes := Some [''!'', ''!!'']\<rparr>"
  have ps: "[''!'', ''!!''] = (case prefixes ?d of None \<Rightarrow> [''!''] | Some configured \<Rightarrow> configured)"
    by (simp add: default_data_def)
  have m1: "[''!'', ''!!''] = filter (startsWith (content (user_message ''!!help a''))) [''!'', ''!!'']"
    by (simp add: startsWith_def user_message_def)
  have m2: "[] = filter (startsWith (content (user_message ''help a''))) [''!'', ''!!'']"
    by (simp add: startsWith_def user_message_def)
  have pre: "[''!'', ''!!''] \<noteq> [] \<and> last [''!'', ''!!''] \<noteq> [] \<and>
      \<not> author_bot (user_message ''!!help a'') \<and> \<not> truthy (webhookID (user_message ''!!help a''))"
    by (simp add: user_message_def truthy_def)
  have tok: "split_spaces [] (trim ''help a'') = [''help'', ''a'']"
    by (simp add: trim_def is_white_space_def)
  have low: "toLowerCase ''help'' = ''help''"
    by code_simp
  show ?thesis
    using last_matching_prefix_selected [OF ps m1, THEN conjunct2, THEN conjunct2, rule_format,
        OF pre, of "loadCommands [help_command]" "\<lambda>_. 0" 1000 fresh]
      last_matching_prefix_selected [OF ps m1, THEN conjunct2, THEN conjunct1]
      last_matching_prefix_selected [OF ps m2, THEN conjunct1, rule_format, OF refl,
        of "loadCommands [help_command]" "\<lambda>_. 0" 1000 fresh]
    by (simp add: tok low Let_def user_message_def)
qed

text \<open>
  Claim C3 as stated selects the first matching prefix. With the prefixes \<open>!\<close> and \<open>!!\<close>
  and the text \<open>!!help\<close> the first match is \<open>!\<close>, the source selects \<open>!!\<close> and runs
  \<open>help\<close>.
\<close>

theorem first_prefix_not_selected:
  "find (startsWith ''!!help'') [''!'', ''!!''] = Some ''!''
   \<and> select_prefix [''!'', ''!!''] ''!!help'' = Some ''!!''
   \<and> select_prefix [''!'', ''!!''] ''!!help'' \<noteq> find (startsWith ''!!help'') [''!'', ''!!'']
   \<and> events (dbf_message (default_data\<lparr>prefixes := Some [''!'', ''!!'']\<rparr>)
         (loadCommands [help_command]) (\<lambda>_. 0) 1000 (user_message ''!!help'') fresh)
       = [Execute ''help'' []]"
  by code_simp

text \<open>
  Claim C4. The text put in place of the cooldown placeholder is the remaining time with
  one decimal, a trailing \<open>.0\<close> dropped and a leading \<open>0.\<close> collapsed, also at ten seconds
  and more.

  \<^verbatim>\<open>replace("0.", ".")\<close> is not anchored at the start: with 10.5 seconds left (a command
  with a cooldown of 30 seconds, used again 19.5 seconds later) \<^verbatim>\<open>toFixed(1)\<close> gives
  \<open>10.5\<close> and the source answers \<open>1.5\<close>.
\<close>

theorem cooldown_text_loses_a_digit:
  "remaining (client (dbf_message default_data (loadCommands [slow_command]) (\<lambda>_. 0) 1000
        (user_message ''!slow'') fresh)) slow_command ''42'' 20500 = Some (Finite 10500)
   \<and> toFixed1 (Finite 10500) = ''10.5''
   \<and> spec_format_time_left (Finite 10500) = ''10.5''
   \<and> format_time_left (Finite 10500) = ''1.5''
   \<and> events (dbf_message default_data (loadCommands [slow_command]) (\<lambda>_. 0) 20500
        (user_message ''!slow'')
        (client (dbf_message default_data (loadCommands [slow_command]) (\<lambda>_. 0) 1000
           (user_message ''!slow'') fresh))) =
       [Respond command_cooldown
          [(''s'', ''s''), (''time_left'', ''1.5''), (''command_name'', ''slow'')],
        Send (Embed None
          ''Please wait `{{cooldown}}` second{{s}} before using this command again''
          [(''{{s}}'', ''s''), (''{{cooldown}}'', ''1.5''), (''{{author}}'', ''ann''),
           (''{{command}}'', ''slow'')])]"
  by code_simp

text \<open>
  Claim C5, as amended. Processing an inbound text message runs at most one handler and
  sends at most one response. Both happen for the same message only when the matched
  handler throws: its error is logged and answered with \<open>command_error\<close>. Neither happens
  only when the event is ignored or when an error leaves the handler uncaught, and no
  response is sent when one does.
\<close>

theorem at_most_one_run_and_one_response:
  assumes "r = dbf_message d commands rnd now m st"
  shows "handler_runs r \<le> 1 \<and> responses_sent r \<le> 1
       \<and> (handler_runs r = 1 \<and> responses_sent r = 1 \<longrightarrow>
            (\<exists>c a e data em. c \<in> snd ` set commands \<and> execute c m a = Some e \<and>
               events r = [Execute (name c) a, ConsoleError e, Respond command_error data, Send em]))
       \<and> (handler_runs r = 0 \<and> responses_sent r = 0 \<longrightarrow> events r = [] \<or> uncaught r \<noteq> None)
       \<and> (uncaught r \<noteq> None \<longrightarrow> responses_sent r = 0)"
proof -
  let ?P = "\<lambda>r. handler_runs r \<le> 1 \<and> responses_sent r \<le> 1
       \<and> (handler_runs r = 1 \<and> responses_sent r = 1 \<longrightarrow>
            (\<exists>c a e data em. c \<in> snd ` set commands \<and> execute c m a = Some e \<and>
               events r = [Execute (name c) a, ConsoleError e, Respond command_error data, Send em]))
       \<and> (handler_runs r = 0 \<and> responses_sent r = 0 \<longrightarrow> events r = [] \<or> uncaught r \<noteq> None)
       \<and> (uncaught r \<noteq> None \<longrightarrow> responses_sent r = 0)"
  have "?P (dbf_message d commands rnd now m st)"
  proof (rule dbf_message_cases)
    show "?P \<lparr>events = [], uncaught = None, client = st\<rparr>"
      by (simp add: handler_runs_def responses_sent_def)
  next
    fix st' cn k data
    show "?P (reject d rnd m cn st' k data)"
      by (simp add: reject_def catch_block_def Let_def handler_runs_def responses_sent_def
          split: sum.split)
  next
    fix st' cn e
    show "?P (catch_block d (rnd 0) m cn [] st' e)"
      by (simp add: catch_block_def Let_def handler_runs_def responses_sent_def
          split: sum.split)
  next
    fix c a
    show "?P \<lparr>events = [Execute (name c) a], uncaught = None,
               client = after_authorization now (author_id m) c st\<rparr>"
      by (simp add: handler_runs_def responses_sent_def)
  next
    fix c a cn e
    assume c: "c \<in> snd ` set commands" "execute c m a = Some e"
    show "?P (catch_block d (rnd 0) m cn [Execute (name c) a]
                (after_authorization now (author_id m) c st) e)"
    proof (cases "responce d (rnd 0) m command_error
                    [(''error'', error_text e), (''command_name'', cn)]")
      case (Inl e')
      then show ?thesis
        by (simp add: catch_block_def Let_def handler_runs_def responses_sent_def)
    next
      case (Inr em)
      then have "events (catch_block d (rnd 0) m cn [Execute (name c) a]
                (after_authorization now (author_id m) c st) e) =
             [Execute (name c) a, ConsoleError e,
              Respond command_error [(''error'', error_text e), (''command_name'', cn)], Send em]"
        by (simp add: catch_block_def Let_def)
      moreover from this have
        "\<exists>c' a' e' data em'. c' \<in> snd ` set commands \<and> execute c' m a' = Some e' \<and>
           events (catch_block d (rnd 0) m cn [Execute (name c) a]
                (after_authorization now (author_id m) c st) e) =
             [Execute (name c') a', ConsoleError e', Respond command_error data, Send em']"
        using c by blast
      ultimately show ?thesis
        using Inr by (simp add: catch_block_def Let_def handler_runs_def responses_sent_def)
    qed
  qed
  then show ?thesis using assms by simp
qed

theorem at_most_one_run_and_one_response_witness:
  "\<exists>c a e data em. c \<in> snd ` set (loadCommands [boom_command]) \<and>
      execute c (user_message ''!boom'') a = Some e \<and>
      events (dbf_message default_data (loadCommands [boom_command]) (\<lambda>_. 0) 1000
        (user_message ''!boom'') fresh) =
        [Execute (name c) a, ConsoleError e, Respond command_error data, Send em]"
proof -
  let ?r = "dbf_message default_data (loadCommands [boom_command]) (\<lambda>_. 0) 1000
        (user_message ''!boom'') fresh"
  have both: "handler_runs ?r = 1 \<and> responses_sent ?r = 1" by code_simp
  show ?thesis
    using at_most_one_run_and_one_response [OF refl, of default_data "loadCommands [boom_command]"
        "\<lambda>_. 0" 1000 "user_message ''!boom''" fresh] both
    by blast
qed

text \<open>
  Claim C5 as stated allows one terminal action for each event. A handler that throws has
  run once and is followed by one response.
\<close>

theorem handler_throw_two_actions:
  "handler_runs (dbf_message default_data (loadCommands [boom_command]) (\<lambda>_. 0) 1000
      (user_message ''!boom'') fresh) = 1
   \<and> responses_sent (dbf_message default_data (loadCommands [boom_command]) (\<lambda>_. 0) 1000
      (user_message ''!boom'') fresh) = 1
   \<and> events (dbf_message default_data (loadCommands [boom_command]) (\<lambda>_. 0) 1000
      (user_message ''!boom'') fresh) =
      [Execute ''boom'' [], ConsoleError (Thrown ''Error: boom''),
       Respond command_error [(''error'', ''Error: boom''), (''command_name'', ''boom'')],
       Send (Embed (Some ''Error'') ''Something went wrong: ```{{error}}```''
         [(''{{error}}'', ''Error: boom''), (''{{author}}'', ''ann''), (''{{command}}'', ''boom'')])]"
  by code_simp


text \<open>
  Claim C6, as amended. Let the cooldown of command \<open>c\<close> be the declared number of
  seconds, or 1 when none or 0 is declared, and let it be at least 1 and at most 2147483
  seconds, so that the timer keeps the delay. After an authorized dispatch of \<open>c\<close> by a
  user at time \<open>now\<close>, made while no eviction of an earlier dispatch is pending for the
  pair, the record of the pair holds \<open>now\<close> and its eviction is scheduled for \<open>now\<close> plus
  the cooldown; whichever pending evictions have run by then, each no earlier than it is
  due, the time left is the positive rest of the cooldown at every time before that
  expiry and is absent after it. An event that runs no handler leaves every cooldown
  record and every scheduled eviction as they were.
\<close>

theorem cooldown_after_dispatch:
  assumes "r = dbf_message d commands rnd now m st"
  shows "(parse d m = Some (prefix, command_name, arguments)
          \<and> get_or_find commands command_name = Some c
          \<and> handler_runs r = 1
          \<and> seconds = (case cooldown c of None \<Rightarrow> 1
                         | Some declared \<Rightarrow> if declared = 0 then 1 else declared)
          \<and> 1 \<le> seconds \<and> 1000 * seconds \<le> 2147483647
          \<and> 0 \<le> now \<and> now \<le> 8640000000000000
          \<and> (\<forall>tm \<in> set (timers st). snd tm \<noteq> (name c, author_id m))
          \<longrightarrow>
            timestamps (client r) (name c) (author_id m) = Some now
          \<and> (now + 1000 * seconds, name c, author_id m) \<in> set (timers (client r))
          \<and> (\<forall>fired eps. 0 \<le> eps \<and> eps < 1000 * seconds \<and> may_fire (now + eps) fired (client r) \<longrightarrow>
                remaining (fire_all fired (client r)) c (author_id m) (now + eps) =
                  Some (Finite (1000 * seconds - eps)))
          \<and> (\<forall>fired eps. 0 < eps \<longrightarrow>
                remaining (fire_all fired (client r)) c (author_id m)
                  (now + 1000 * seconds + eps) = None))
       \<and> (handler_runs r = 0 \<longrightarrow>
            timestamps (client r) = timestamps st \<and> timers (client r) = timers st)"
proof (rule conjI; rule impI)
  assume "handler_runs r = 0"
  then show "timestamps (client r) = timestamps st \<and> timers (client r) = timers st"
    using dbf_message_records_kept [of d commands rnd now m st] assms
    by (simp add: records_kept_def)
next
  let ?uid = "author_id m"
  let ?A = "1000 * seconds"
  assume h: "parse d m = Some (prefix, command_name, arguments)
          \<and> get_or_find commands command_name = Some c
          \<and> handler_runs r = 1
          \<and> seconds = (case cooldown c of None \<Rightarrow> 1
                         | Some declared \<Rightarrow> if declared = 0 then 1 else declared)
          \<and> 1 \<le> seconds \<and> 1000 * seconds \<le> 2147483647
          \<and> 0 \<le> now \<and> now \<le> 8640000000000000
          \<and> (\<forall>tm \<in> set (timers st). snd tm \<noteq> (name c, author_id m))"
  then have disp: "r = dispatch d commands rnd now m st prefix command_name arguments"
    using assms dbf_message_parsed by simp
  have known: "has commands command_name"
  proof (rule ccontr)
    assume "\<not> has commands command_name"
    then have "handler_runs r = 0" using disp by (simp add: dispatch_def)
    then show False using h by simp
  qed
  have g: "r = guards d rnd now m st prefix command_name arguments
                 (select_owner (or_empty (owners d)) ?uid) c"
    using disp known h by (simp add: dispatch_def Let_def)
  have st': "client r = after_authorization now ?uid c st"
    using g h guards_authorized_state by simp
  have amount: "cooldown_amount c = Finite ?A"
    using h by (simp add: cooldown_amount_def to_number_exact mult.commute)
  have delay: "timeout_delay (cooldown_amount c) = ?A"
    using h by (simp add: amount timeout_delay_def)
  have rec: "timestamps (client r) (name c) ?uid = Some now"
    by (simp add: st' after_authorization_record)
  have timer: "(now + ?A, name c, ?uid) \<in> set (timers (client r))"
    using after_authorization_timer [of now c ?uid st] by (simp add: st' delay)
  have pending: "\<forall>tm \<in> set (timers (client r)). snd tm = (name c, ?uid) \<longrightarrow> fst tm = now + ?A"
    using h by (auto simp: st' after_authorization_def set_timeout_def set_bucket_def delay)
  have expiry: "add_number now (cooldown_amount c) = Finite (now + ?A)"
    using h by (simp add: amount add_number_def to_number_exact)
  have positive: "remaining (fire_all fired (client r)) c ?uid (now + eps) =
        Some (Finite (?A - eps))"
    if "0 \<le> eps" "eps < ?A" "may_fire (now + eps) fired (client r)" for fired eps
  proof -
    have "\<forall>tm \<in> set (timers (client r)). snd tm = (name c, ?uid) \<longrightarrow> now + eps < fst tm"
      using pending that(2) by auto
    then have "timestamps (fire_all fired (client r)) (name c) ?uid = Some now"
      using timestamps_fire_all_kept [OF that(3)] rec by simp
    moreover have "to_number (now + ?A - (now + eps)) = Finite (?A - eps)"
      using that h by (simp add: to_number_exact)
    ultimately show ?thesis
      using that by (simp add: remaining_def expiry less_number_def subtract_number_def)
  qed
  have absent: "remaining (fire_all fired (client r)) c ?uid (now + ?A + eps) = None"
    if "0 < eps" for fired eps
    using timestamps_fire_all_cases [of fired "client r" "name c" ?uid] rec that
    by (auto simp: remaining_def expiry less_number_def)
  show "timestamps (client r) (name c) (author_id m) = Some now
          \<and> (now + 1000 * seconds, name c, author_id m) \<in> set (timers (client r))
          \<and> (\<forall>fired eps. 0 \<le> eps \<and> eps < 1000 * seconds \<and> may_fire (now + eps) fired (client r) \<longrightarrow>
                remaining (fire_all fired (client r)) c (author_id m) (now + eps) =
                  Some (Finite (1000 * seconds - eps)))
          \<and> (\<forall>fired eps. 0 < eps \<longrightarrow>
                remaining (fire_all fired (client r)) c (author_id m)
                  (now + 1000 * seconds + eps) = None)"
    using rec timer positive absent by blast
qed

theorem cooldown_after_dispatch_witness:
  "timestamps (client (dbf_message default_data (loadCommands [slow_command]) (\<lambda>_. 0) 1000
      (user_message ''!slow'') fresh)) ''slow'' ''42'' = Some 1000
   \<and> (31000, ''slow'', ''42'') \<in> set (timers (client (dbf_message default_data
      (loadCommands [slow_command]) (\<lambda>_. 0) 1000 (user_message ''!slow'') fresh)))
   \<and> remaining (client (dbf_message default_data (loadCommands [slow_command]) (\<lambda>_. 0) 1000
      (user_message ''!slow'') fresh)) slow_command ''42'' 20500 = Some (Finite 10500)
   \<and> remaining (fire_all [(31000, ''slow'', ''42'')] (client (dbf_message default_data
      (loadCommands [slow_command]) (\<lambda>_. 0) 1000 (user_message ''!slow'') fresh)))
      slow_command ''42'' 31001 = None
   \<and> timers (client (dbf_message default_data (loadCommands [slow_command]) (\<lambda>_. 0) 1000
      (user_message ''!fast'') fresh)) = []"
proof -
  let ?r = "dbf_message default_data (loadCommands [slow_command]) (\<lambda>_. 0) 1000
      (user_message ''!slow'') fresh"
  let ?q = "dbf_message default_data (loadCommands [slow_command]) (\<lambda>_. 0) 1000
      (user_message ''!fast'') fresh"
  have p: "parse default_data (user_message ''!slow'') = Some (''!'', ''slow'', [])"
    by code_simp
  have g: "get_or_find (loadCommands [slow_command]) ''slow'' = Some slow_command"
    by (simp add: get_or_find_def loadCommands_def slow_command_def plain_command_def)
  have run: "handler_runs ?r = 1" by code_simp
  have norun: "handler_runs ?q = 0" by code_simp
  have secs: "(30::int) = (case cooldown slow_command of None \<Rightarrow> 1
                         | Some declared \<Rightarrow> if declared = 0 then 1 else declared)"
    by (simp add: slow_command_def plain_command_def)
  have ids: "name slow_command = ''slow''" "author_id (user_message ''!slow'') = ''42''"
    by (simp_all add: slow_command_def plain_command_def user_message_def)
  have none: "\<forall>tm \<in> set (timers fresh).
      snd tm \<noteq> (name slow_command, author_id (user_message ''!slow''))"
    by (simp add: fresh_def)
  have pre: "parse default_data (user_message ''!slow'') = Some (''!'', ''slow'', [])
          \<and> get_or_find (loadCommands [slow_command]) ''slow'' = Some slow_command
          \<and> handler_runs ?r = 1
          \<and> (30::int) = (case cooldown slow_command of None \<Rightarrow> 1
                         | Some declared \<Rightarrow> if declared = 0 then 1 else declared)
          \<and> (1::int) \<le> 30 \<and> 1000 * (30::int) \<le> 2147483647
          \<and> (0::int) \<le> 1000 \<and> (1000::int) \<le> 8640000000000000
          \<and> (\<forall>tm \<in> set (timers fresh).
                snd tm \<noteq> (name slow_command, author_id (user_message ''!slow'')))"
    using p g run secs none by simp
  note main = cooldown_after_dispatch [OF refl, THEN conjunct1, rule_format, OF pre]
  have a: "timestamps (client ?r) ''slow'' ''42'' = Some 1000"
    using main [THEN conjunct1] by (simp add: ids)
  have b: "(31000, ''slow'', ''42'') \<in> set (timers (client ?r))"
    using main [THEN conjunct2, THEN conjunct1] by (simp add: ids)
  have c: "remaining (client ?r) slow_command ''42'' 20500 = Some (Finite 10500)"
    using main [THEN conjunct2, THEN conjunct2, THEN conjunct1, rule_format,
        where eps = 19500 and fired = "[]"]
    by (simp add: ids)
  have d: "remaining (fire_all [(31000, ''slow'', ''42'')] (client ?r)) slow_command ''42'' 31001
      = None"
    using main [THEN conjunct2, THEN conjunct2, THEN conjunct2, rule_format,
        where eps = 1 and fired = "[(31000, ''slow'', ''42'')]"]
    by (simp add: ids)
  have e: "timers (client ?q) = []"
    using cooldown_after_dispatch [OF refl, THEN conjunct2, rule_format, OF norun]
    by (simp add: fresh_def)
  show ?thesis using a b c d e by simp
qed

text \<open>
  Claim C6 as stated holds for every declared cooldown and every dispatch. A declared
  cooldown of 0 lasts one second: half a second after the dispatch 500 ms are left. A
  dispatch at the very instant the previous cooldown expires (line 531 compares with
  \<^verbatim>\<open><\<close>) finds the previous eviction still pending; when that eviction runs it deletes
  the new record, and half a second after the dispatch no time is left of a cooldown of
  one second. A cooldown of 2147484 seconds is a delay the timer does not keep: the
  eviction is due one millisecond after the dispatch.
\<close>

theorem cooldown_not_kept:
  "handler_runs (dbf_message default_data (loadCommands [zero_command]) (\<lambda>_. 0) 1000
      (user_message ''!zero'') fresh) = 1
   \<and> remaining (client (dbf_message default_data (loadCommands [zero_command]) (\<lambda>_. 0) 1000
      (user_message ''!zero'') fresh)) zero_command ''42'' 1500 = Some (Finite 500)
   \<and> handler_runs (dbf_message default_data (loadCommands [one_command]) (\<lambda>_. 0) 2000
      (user_message ''!one'')
      (client (dbf_message default_data (loadCommands [one_command]) (\<lambda>_. 0) 1000
         (user_message ''!one'') fresh))) = 1
   \<and> may_fire 2500 [(2000, ''one'', ''42'')]
      (client (dbf_message default_data (loadCommands [one_command]) (\<lambda>_. 0) 2000
         (user_message ''!one'')
         (client (dbf_message default_data (loadCommands [one_command]) (\<lambda>_. 0) 1000
            (user_message ''!one'') fresh))))
   \<and> remaining (fire_all [(2000, ''one'', ''42'')]
      (client (dbf_message default_data (loadCommands [one_command]) (\<lambda>_. 0) 2000
         (user_message ''!one'')
         (client (dbf_message default_data (loadCommands [one_command]) (\<lambda>_. 0) 1000
            (user_message ''!one'') fresh))))) one_command ''42'' 2500 = None
   \<and> timers (client (dbf_message default_data (loadCommands [long_command]) (\<lambda>_. 0) 1000
      (user_message ''!long'') fresh)) = [(1001, ''long'', ''42'')]
   \<and> remaining (fire_all [(1001, ''long'', ''42'')]
      (client (dbf_message default_data (loadCommands [long_command]) (\<lambda>_. 0) 1000
         (user_message ''!long'') fresh))) long_command ''42'' 2000 = None"
  by code_simp

text \<open>
  Claim C7. For a message that resolves to command \<open>c\<close> and passes the guards before the
  arity guard, a declared arity \<open>n \<noteq> 0\<close> is rejected with \<open>command_incorrect_usage\<close>
  exactly when the number of arguments differs from \<open>n\<close>; with arity 0, or with \<open>n\<close>
  arguments, the message is not rejected and the handler runs.
\<close>

theorem arity_guard:
  assumes "parse d m = Some (prefix, command_name, arguments)"
      and "has commands command_name"
      and "get_or_find commands command_name = Some c"
      and "\<not> is_blocked d c (author_id m)"
      and "remaining st c (author_id m) now = None"
      and "\<not> (guildOnly c \<and> channel_type m \<noteq> ''text'')"
      and "\<not> (dmsOnly c \<and> channel_type m \<noteq> ''dm'')"
      and "\<not> (ownersOnly c \<and> \<not> truthy (select_owner (or_empty (owners d)) (author_id m)))"
      and "\<not> permission_refused (permissions c) (author_perms m)"
      and "\<not> permission_refused (botPermissions c) (bot_perms m)"
      and "n = (case args c of None \<Rightarrow> 0 | Some declared \<Rightarrow> declared)"
      and "r = dbf_message d commands rnd now m st"
  shows "(n \<noteq> 0 \<longrightarrow>
            (rejection (events r) = Some command_incorrect_usage) = (int (length arguments) \<noteq> n))
       \<and> (n = 0 \<or> int (length arguments) = n \<longrightarrow> rejection (events r) = None \<and> handler_runs r = 1)"
proof -
  have r: "r = guards d rnd now m st prefix command_name arguments
                 (select_owner (or_empty (owners d)) (author_id m)) c"
    using assms(2,3,12) dbf_message_parsed [OF assms(1)] by (simp add: dispatch_def Let_def)
  note g = guards_reach_arity [OF assms(4-11), of rnd prefix command_name arguments]
  show ?thesis
  proof (cases "n \<noteq> int (length arguments) \<and> n \<noteq> 0")
    case True
    then show ?thesis using r g by auto
  next
    case False
    then have "rejection (events r) = None \<and> handler_runs r = 1"
      using r g by (cases "execute c m arguments") (simp_all add: handler_runs_def)
    then show ?thesis using False by auto
  qed
qed

theorem arity_guard_witness:
  "rejection (events (dbf_message default_data (loadCommands [add_command]) (\<lambda>_. 0) 1000
      (user_message ''!add 1'') fresh)) = Some command_incorrect_usage
   \<and> rejection (events (dbf_message default_data (loadCommands [add_command]) (\<lambda>_. 0) 1000
      (user_message ''!add 1 2 3'') fresh)) = Some command_incorrect_usage
   \<and> handler_runs (dbf_message default_data (loadCommands [add_command]) (\<lambda>_. 0) 1000
      (user_message ''!add 1 2'') fresh) = 1
   \<and> handler_runs (dbf_message default_data (loadCommands [help_command]) (\<lambda>_. 0) 1000
      (user_message ''!help a b'') fresh) = 1"
proof -
  have p: "parse default_data (user_message ''!add 1'') = Some (''!'', ''add'', [''1''])"
      "parse default_data (user_message ''!add 1 2 3'') = Some (''!'', ''add'', [''1'', ''2'', ''3''])"
      "parse default_data (user_message ''!add 1 2'') = Some (''!'', ''add'', [''1'', ''2''])"
      "parse default_data (user_message ''!help a b'') = Some (''!'', ''help'', [''a'', ''b''])"
    by code_simp+
  have h: "has (loadCommands [add_command]) ''add''" "has (loadCommands [help_command]) ''help''"
    by (simp_all add: has_def loadCommands_def add_command_def help_command_def plain_command_def)
  have g: "get_or_find (loadCommands [add_command]) ''add'' = Some add_command"
      "get_or_find (loadCommands [help_command]) ''help'' = Some help_command"
    by (simp_all add: get_or_find_def loadCommands_def add_command_def help_command_def
        plain_command_def)
  have nb: "\<not> is_blocked default_data add_command (author_id (user_message t))"
      "\<not> is_blocked default_data help_command (author_id (user_message t))" for t
    by (simp_all add: is_blocked_def default_data_def add_command_def help_command_def
        plain_command_def or_empty_def)
  have nc: "remaining fresh add_command (author_id (user_message t)) 1000 = None"
      "remaining fresh help_command (author_id (user_message t)) 1000 = None" for t
    by (simp_all add: remaining_def fresh_def timestamps_def)
  have ctx: "\<not> (guildOnly add_command \<and> channel_type (user_message t) \<noteq> ''text'')"
      "\<not> (dmsOnly add_command \<and> channel_type (user_message t) \<noteq> ''dm'')"
      "\<not> (guildOnly help_command \<and> channel_type (user_message t) \<noteq> ''text'')"
      "\<not> (dmsOnly help_command \<and> channel_type (user_message t) \<noteq> ''dm'')" for t
    by (simp_all add: add_command_def help_command_def plain_command_def)
  have own: "\<not> (ownersOnly add_command \<and>
        \<not> truthy (select_owner (or_empty (owners default_data)) (author_id (user_message t))))"
      "\<not> (ownersOnly help_command \<and>
        \<not> truthy (select_owner (or_empty (owners default_data)) (author_id (user_message t))))" for t
    by (simp_all add: add_command_def help_command_def plain_command_def)
  have perm: "\<not> permission_refused (permissions add_command) (author_perms (user_message t))"
      "\<not> permission_refused (botPermissions add_command) (bot_perms (user_message t))"
      "\<not> permission_refused (permissions help_command) (author_perms (user_message t))"
      "\<not> permission_refused (botPermissions help_command) (bot_perms (user_message t))" for t
    by (simp_all add: permission_refused_def add_command_def help_command_def plain_command_def)
  have n: "(2::int) = (case args add_command of None \<Rightarrow> 0 | Some declared \<Rightarrow> declared)"
      "(0::int) = (case args help_command of None \<Rightarrow> 0 | Some declared \<Rightarrow> declared)"
    by (simp_all add: add_command_def help_command_def plain_command_def)
  show ?thesis
    using arity_guard [where rnd = "\<lambda>_. 0",
          OF p(1) h(1) g(1) nb(1) nc(1) ctx(1,2) own(1) perm(1,2) n(1) refl]
      arity_guard [where rnd = "\<lambda>_. 0",
          OF p(2) h(1) g(1) nb(1) nc(1) ctx(1,2) own(1) perm(1,2) n(1) refl]
      arity_guard [where rnd = "\<lambda>_. 0",
          OF p(3) h(1) g(1) nb(1) nc(1) ctx(1,2) own(1) perm(1,2) n(1) refl]
      arity_guard [where rnd = "\<lambda>_. 0",
          OF p(4) h(2) g(2) nb(2) nc(2) ctx(3,4) own(2) perm(3,4) n(2) refl]
    by simp
qed



text \<open>
  Claim C9. An interaction without a registered handler is ignored; a command-kind
  interaction whose handler throws gets one ephemeral error reply, a button or select
  interaction whose handler throws gets none.

  In the \<^verbatim>\<open>catch\<close> block of the command kind, \<^verbatim>\<open>msg\<close> and \<^verbatim>\<open>embed\<close> are assigned without
  a declaration (lines 625 and 628): the assignment throws a ReferenceError, the reply of
  line 633 is never reached and the error leaves the handler.
\<close>

theorem command_interaction_error_has_no_reply:
  "events (dbf_interaction default_data node_globals 0 ping_tables
      \<lparr>kind = IsCommand, commandName = ''ping'', customId = ''''\<rparr> fresh) =
     [ExecuteInteraction IsCommand ''ping'', ConsoleError (Thrown ''Error: boom'')]
   \<and> uncaught (dbf_interaction default_data node_globals 0 ping_tables
      \<lparr>kind = IsCommand, commandName = ''ping'', customId = ''''\<rparr> fresh) =
     Some (ReferenceError ''msg is not defined'')
   \<and> filter is_reply (events (dbf_interaction default_data node_globals 0 ping_tables
      \<lparr>kind = IsCommand, commandName = ''ping'', customId = ''''\<rparr> fresh)) = []
   \<and> events (dbf_interaction default_data node_globals 0 ping_tables
      \<lparr>kind = IsButton, commandName = '''', customId = ''ok''\<rparr> fresh) =
     [ExecuteInteraction IsButton ''ok'', ConsoleError (Thrown ''Error: boom'')]"
  by code_simp

text \<open>
  Claim C10. A message whose author is a bot, or which carries a webhook id, produces no
  event (no response, no handler) and leaves the state, cooldowns included, unchanged.
\<close>

theorem bot_and_webhook_messages_dropped:
  assumes "author_bot m \<or> truthy (webhookID m)"
  shows "dbf_message d commands rnd now m st = \<lparr>events = [], uncaught = None, client = st\<rparr>"
  using assms by (auto simp: dbf_message_def ignored_def)

theorem bot_and_webhook_messages_dropped_witness:
  "dbf_message default_data (loadCommands [help_command]) (\<lambda>_. 0) 1000
     ((user_message ''!help'')\<lparr>author_bot := True\<rparr>) fresh =
     \<lparr>events = [], uncaught = None, client = fresh\<rparr>
   \<and> dbf_message default_data (loadCommands [help_command]) (\<lambda>_. 0) 1000
     ((user_message ''!help'')\<lparr>webhookID := Some ''77''\<rparr>) fresh =
     \<lparr>events = [], uncaught = None, client = fresh\<rparr>"
  using bot_and_webhook_messages_dropped [of "(user_message ''!help'')\<lparr>author_bot := True\<rparr>"]
    bot_and_webhook_messages_dropped [of "(user_message ''!help'')\<lparr>webhookID := Some ''77''\<rparr>"]
  by (simp add: user_message_def truthy_def)

end
